theory Spec2Isabelle
  imports Complex_Main
begin

section \<open>Python values\<close>

text \<open>
  A Python \<open>str\<close> is a sequence of code points; the configuration of this integration
  holds names in Chinese, so a string is modelled as the list of its code points
  (each below \<open>0x110000\<close>). An ASCII literal of the source is written \<open>str_of ''...''\<close>.
\<close>

type_synonym pystr = "nat list"

definition str_of :: "string \<Rightarrow> pystr" where
  "str_of s = map of_char s"

text \<open>\<open>str(n)\<close> of a non-negative integer: its decimal digits, most significant first.\<close>

fun digits :: "nat \<Rightarrow> pystr" where
  "digits n = (if n < 10 then [48 + n] else digits (n div 10) @ [48 + n mod 10])"

declare digits.simps [simp del]

definition str_int :: "int \<Rightarrow> pystr" where
  "str_int i = (if i < 0 then 45 # digits (nat (- i)) else digits (nat i))"

text \<open>
  The values found in the imported configuration (\<open>Dict[str, Any]\<close>): JSON scalars.
  A Python \<open>float\<close> is not modelled.
\<close>

datatype jvalue = JStr pystr | JInt int | JBool bool | JNull

type_synonym pydict = "pystr \<rightharpoonup> jvalue"

text \<open>A dict literal handed to \<open>json.dumps\<close>: its items in insertion order.\<close>

type_synonym json_object = "(pystr \<times> jvalue) list"

datatype py_exn =
    KeyError pystr
  | UnicodeEncodeError
  | ConnectionError
  | Timeout
  | HTTPError int
  | JSONDecodeError

text \<open>
  The subclasses of \<open>requests.exceptions.RequestException\<close>, which the first
  \<open>except\<close> clause of every send catches; the second clause catches \<open>Exception\<close>.
\<close>

fun request_exception :: "py_exn \<Rightarrow> bool" where
  "request_exception ConnectionError = True"
| "request_exception Timeout = True"
| "request_exception (HTTPError st) = True"
| "request_exception JSONDecodeError = True"
| "request_exception e = False"

text \<open>
  \<open>round(x)\<close> of Python 3 rounds to the nearest integer and a tie to the even one;
  \<open>a / b\<close> on integers is the correctly rounded quotient, which for the magnitudes of a
  percentage times a speed count falls on the same side of every half-integer as the
  exact quotient, so the quotient is taken as a rational.
\<close>

definition py_round :: "rat \<Rightarrow> int" where
  "py_round x =
     (let f = \<lfloor>x\<rfloor>; d = x - of_int f
      in if d < 1 / 2 then f else if 1 / 2 < d then f + 1
         else if even f then f else f + 1)"

text \<open>\<open>int(x)\<close> truncates towards zero.\<close>

definition py_int :: "rat \<Rightarrow> int" where
  "py_int x = (if x < 0 then - \<lfloor>- x\<rfloor> else \<lfloor>x\<rfloor>)"

section \<open>\<open>json.dumps(obj, separators=(',', ':'))\<close>\<close>

text \<open>
  \<open>ensure_ascii\<close> keeps its default \<open>True\<close>: a string is written between double
  quotes, backslash, double quote and the five short escapes are taken from
  \<open>ESCAPE_DCT\<close>, the printable ASCII characters stand for themselves and every other
  code point becomes \<open>\uXXXX\<close> in lower-case hexadecimal, a surrogate pair above the
  basic plane.
\<close>

definition hex_lower :: "nat \<Rightarrow> nat" where
  "hex_lower d = (if d < 10 then 48 + d else 87 + d)"

text \<open>\<open>'\\u{0:04x}'.format(n)\<close>, called with \<open>n < 0x10000\<close> only.\<close>

definition u_escape :: "nat \<Rightarrow> pystr" where
  "u_escape n =
     [92, 117, hex_lower (n div 4096 mod 16), hex_lower (n div 256 mod 16),
      hex_lower (n div 16 mod 16), hex_lower (n mod 16)]"

definition esc_char :: "nat \<Rightarrow> pystr" where
  "esc_char c =
     (if c = 92 then [92, 92]
      else if c = 34 then [92, 34]
      else if c = 8 then [92, 98]
      else if c = 12 then [92, 102]
      else if c = 10 then [92, 110]
      else if c = 13 then [92, 114]
      else if c = 9 then [92, 116]
      else if 32 \<le> c \<and> c \<le> 126 then [c]
      else if c < 0x10000 then u_escape c
      else (let n = c - 0x10000;
                s1 = 0xD800 + (n div 1024) mod 1024;
                s2 = 0xDC00 + n mod 1024
            in u_escape s1 @ u_escape s2))"

definition encode_basestring_ascii :: "pystr \<Rightarrow> pystr" where
  "encode_basestring_ascii s = 34 # concat (map esc_char s) @ [34]"

fun dumps_value :: "jvalue \<Rightarrow> pystr" where
  "dumps_value (JStr s) = encode_basestring_ascii s"
| "dumps_value (JInt i) = str_int i"
| "dumps_value (JBool b) = (if b then str_of ''true'' else str_of ''false'')"
| "dumps_value JNull = str_of ''null''"

definition dumps_item :: "pystr \<times> jvalue \<Rightarrow> pystr" where
  "dumps_item kv = encode_basestring_ascii (fst kv) @ 58 # dumps_value (snd kv)"

fun dumps_items :: "json_object \<Rightarrow> pystr" where
  "dumps_items [] = []"
| "dumps_items [kv] = dumps_item kv"
| "dumps_items (kv # rest) = dumps_item kv @ 44 # dumps_items rest"

definition json_dumps :: "json_object \<Rightarrow> pystr" where
  "json_dumps obj = 123 # dumps_items obj @ [125]"

section \<open>\<open>urllib.parse.quote\<close>\<close>

text \<open>
  \<open>quote(string)\<close> encodes the string as UTF-8 (\<open>errors='strict'\<close>: a surrogate code
  point raises) and keeps the bytes of \<open>_ALWAYS_SAFE\<close> and the default \<open>safe='/'\<close>;
  every other byte becomes \<open>'%{:02X}'.format(b)\<close>.
\<close>

definition utf8_encode_char :: "nat \<Rightarrow> py_exn + nat list" where
  "utf8_encode_char c =
     (if c < 0x80 then Inr [c]
      else if c < 0x800 then Inr [0xC0 + c div 64, 0x80 + c mod 64]
      else if 0xD800 \<le> c \<and> c < 0xE000 then Inl UnicodeEncodeError
      else if c < 0x10000 then
        Inr [0xE0 + c div 4096, 0x80 + c div 64 mod 64, 0x80 + c mod 64]
      else
        Inr [0xF0 + c div 262144, 0x80 + c div 4096 mod 64, 0x80 + c div 64 mod 64,
             0x80 + c mod 64])"

fun utf8_encode :: "pystr \<Rightarrow> py_exn + nat list" where
  "utf8_encode [] = Inr []"
| "utf8_encode (c # cs) =
     (case utf8_encode_char c of
        Inl e \<Rightarrow> Inl e
      | Inr bs \<Rightarrow> (case utf8_encode cs of Inl e \<Rightarrow> Inl e | Inr r \<Rightarrow> Inr (bs @ r)))"

definition always_safe :: "nat \<Rightarrow> bool" where
  "always_safe b \<longleftrightarrow>
     (65 \<le> b \<and> b \<le> 90) \<or> (97 \<le> b \<and> b \<le> 122) \<or> (48 \<le> b \<and> b \<le> 57)
     \<or> b = 95 \<or> b = 46 \<or> b = 45 \<or> b = 126"

definition hex_upper :: "nat \<Rightarrow> nat" where
  "hex_upper d = (if d < 10 then 48 + d else 55 + d)"

definition quote_byte :: "nat \<Rightarrow> pystr" where
  "quote_byte b =
     (if always_safe b \<or> b = 47 then [b]
      else [37, hex_upper (b div 16), hex_upper (b mod 16)])"

definition quote :: "pystr \<Rightarrow> py_exn + pystr" where
  "quote s =
     (case utf8_encode s of
        Inl e \<Rightarrow> Inl e
      | Inr bs \<Rightarrow> Inr (concat (map quote_byte bs)))"

section \<open>The device behind \<open>requests.get\<close>\<close>

text \<open>
  The device is a parameter of every operation: what it does with the URL it is asked
  for. A response carries its status code and whether \<open>response.json()\<close> can parse
  its body.
\<close>

datatype http_result = Refused | TimedOut | Responded int bool

type_synonym device = "pystr \<Rightarrow> http_result"

text \<open>
  What an operation leaves behind besides the new state of the entity: the URLs it
  asked for (with the number written in \<open>{"timeout": n}\<close>) and the exceptions its
  \<open>except\<close> clauses caught and logged.
\<close>

datatype event = HttpGet pystr nat | Caught py_exn

definition requests_get :: "device \<Rightarrow> pystr \<Rightarrow> py_exn + (int \<times> bool)" where
  "requests_get dev url =
     (case dev url of
        Refused \<Rightarrow> Inl ConnectionError
      | TimedOut \<Rightarrow> Inl Timeout
      | Responded st ok \<Rightarrow> Inr (st, ok))"

text \<open>\<open>Response.raise_for_status\<close> raises for the statuses 400 to 599.\<close>

definition raise_for_status :: "int \<times> bool \<Rightarrow> py_exn + unit" where
  "raise_for_status r =
     (if 400 \<le> fst r \<and> fst r < 600 then Inl (HTTPError (fst r)) else Inr ())"

definition response_json :: "int \<times> bool \<Rightarrow> py_exn + unit" where
  "response_json r = (if snd r then Inr () else Inl JSONDecodeError)"

text \<open>
  The three lines every command send shares: the request, \<open>raise_for_status()\<close> and
  \<open>response.json()\<close>.
\<close>

definition send_request :: "device \<Rightarrow> pystr \<Rightarrow> py_exn + unit" where
  "send_request dev url =
     (case requests_get dev url of
        Inl e \<Rightarrow> Inl e
      | Inr r \<Rightarrow> (case raise_for_status r of Inl e \<Rightarrow> Inl e | Inr u \<Rightarrow> response_json r))"

text \<open>The two lines of every \<open>async_update\<close>: the request and \<open>raise_for_status()\<close>.\<close>

definition probe_request :: "device \<Rightarrow> pystr \<Rightarrow> py_exn + unit" where
  "probe_request dev url =
     (case requests_get dev url of Inl e \<Rightarrow> Inl e | Inr r \<Rightarrow> raise_for_status r)"

definition status_url :: "pystr \<Rightarrow> pystr" where
  "status_url ip = str_of ''http://'' @ ip @ str_of ''/cm?cmnd=Status''"

section \<open>Building an infrared command\<close>

text \<open>
  The dict literal \<open>ir_data\<close> of \<open>fan.py\<close>, \<open>remote.py\<close> and \<open>button.py\<close> (the same
  four lines in each): a missing \<open>protocol\<close>, \<open>bits\<close> or \<open>data\<close> raises
  \<open>KeyError\<close>, a missing \<open>repeat\<close> is 0.
\<close>

definition ir_data :: "pydict \<Rightarrow> py_exn + json_object" where
  "ir_data code =
     (case code (str_of ''protocol'') of
        None \<Rightarrow> Inl (KeyError (str_of ''protocol''))
      | Some p \<Rightarrow>
     (case code (str_of ''bits'') of
        None \<Rightarrow> Inl (KeyError (str_of ''bits''))
      | Some b \<Rightarrow>
     (case code (str_of ''data'') of
        None \<Rightarrow> Inl (KeyError (str_of ''data''))
      | Some d \<Rightarrow>
          Inr [(str_of ''Protocol'', p), (str_of ''Bits'', b), (str_of ''Data'', d),
               (str_of ''Repeat'',
                  (case code (str_of ''repeat'') of None \<Rightarrow> JInt 0 | Some r \<Rightarrow> r))])))"

definition encoded_command :: "json_object \<Rightarrow> py_exn + pystr" where
  "encoded_command obj = quote (json_dumps obj)"

definition irsend_command :: "pystr \<Rightarrow> pystr" where
  "irsend_command enc = str_of ''cmnd=IRsend%20'' @ enc"

definition irsend_url :: "pystr \<Rightarrow> pystr \<Rightarrow> pystr" where
  "irsend_url ip enc = str_of ''http://'' @ ip @ str_of ''/cm?'' @ irsend_command enc"

text \<open>The part of the \<open>try\<close> block before the request: the URL, or the exception raised.\<close>

definition ir_command_url :: "pystr \<Rightarrow> pydict \<Rightarrow> py_exn + pystr" where
  "ir_command_url ip code =
     (case ir_data code of
        Inl e \<Rightarrow> Inl e
      | Inr obj \<Rightarrow>
          (case encoded_command obj of Inl e \<Rightarrow> Inl e | Inr enc \<Rightarrow> Inr (irsend_url ip enc)))"

text \<open>
  The whole \<open>try\<close> block of an infrared send: its outcome and what it requested.
\<close>

definition ir_send_attempt :: "device \<Rightarrow> pystr \<Rightarrow> pydict \<Rightarrow> (py_exn + unit) \<times> event list" where
  "ir_send_attempt dev ip code =
     (case ir_command_url ip code of
        Inl e \<Rightarrow> (Inl e, [])
      | Inr url \<Rightarrow> (send_request dev url, [HttpGet url 10]))"

section \<open>\<open>fan.py\<close>: TasmotaIRFan\<close>

record fan =
  fan_device_ip :: pystr
  fan_ir_codes :: "pystr \<rightharpoonup> pydict"
  speed_count :: int
  preset_modes :: "pystr list"
  oscillation_supported :: bool
  ordered_named_fan_speeds :: "pystr list"
  is_on :: bool
  percentage :: "int option"
  oscillating :: bool
  preset_mode :: "pystr option"
  fan_available :: bool

record fan_config =
  cfg_speed_count :: "int option"
  cfg_preset_modes :: "pystr list option"
  cfg_oscillation_supported :: "bool option"

definition fan_init :: "pystr \<Rightarrow> (pystr \<rightharpoonup> pydict) \<Rightarrow> fan_config \<Rightarrow> fan" where
  "fan_init ip codes cfg =
     (let n = (case cfg_speed_count cfg of None \<Rightarrow> 3 | Some k \<Rightarrow> k) in
      \<lparr> fan_device_ip = ip,
        fan_ir_codes = codes,
        speed_count = n,
        preset_modes = (case cfg_preset_modes cfg of None \<Rightarrow> [] | Some ms \<Rightarrow> ms),
        oscillation_supported =
          (case cfg_oscillation_supported cfg of None \<Rightarrow> True | Some b \<Rightarrow> b),
        ordered_named_fan_speeds = map (\<lambda>i. str_int i @ [0x6863]) [1..n],
        is_on = False,
        percentage = Some 0,
        oscillating = False,
        preset_mode = None,
        fan_available = True \<rparr>)"

text \<open>
  \<open>_send_ir_command\<close>: an unknown key returns at once; otherwise the \<open>try\<close> block runs
  and either sets the flag or one of the two \<open>except\<close> clauses clears it.
\<close>

definition fan_send_ir_command :: "fan \<Rightarrow> pystr \<Rightarrow> device \<Rightarrow> fan \<times> event list" where
  "fan_send_ir_command s command_key dev =
     (case fan_ir_codes s command_key of
        None \<Rightarrow> (s, [])
      | Some code \<Rightarrow>
          (case ir_send_attempt dev (fan_device_ip s) code of
             (Inr u, evs) \<Rightarrow> (s\<lparr>fan_available := True\<rparr>, evs)
           | (Inl e, evs) \<Rightarrow>
               (if request_exception e then (s\<lparr>fan_available := False\<rparr>, evs @ [Caught e])
                else (s\<lparr>fan_available := False\<rparr>, evs @ [Caught e]))))"

definition async_turn_off :: "fan \<Rightarrow> device \<Rightarrow> fan \<times> event list" where
  "async_turn_off s dev =
     (case fan_send_ir_command s (str_of ''power'') dev of
        (s1, evs) \<Rightarrow> (s1\<lparr>is_on := False, percentage := Some 0, preset_mode := None\<rparr>, evs))"

definition speed_level :: "int \<Rightarrow> int \<Rightarrow> int" where
  "speed_level p n = max 1 (min n (py_round (of_int (p * n) / 100)))"

definition speed_key :: "int \<Rightarrow> pystr" where
  "speed_key l = str_of ''speed_'' @ str_int l"

definition async_set_percentage :: "fan \<Rightarrow> int \<Rightarrow> device \<Rightarrow> fan \<times> event list" where
  "async_set_percentage s p dev =
     (if p = 0 then async_turn_off s dev
      else
        (let key = speed_key (speed_level p (speed_count s)) in
         if key \<in> dom (fan_ir_codes s) then
           (case fan_send_ir_command s key dev of
              (s1, evs) \<Rightarrow>
                (s1\<lparr>percentage := Some p, is_on := True, preset_mode := None\<rparr>, evs))
         else (s, [])))"

definition async_set_preset_mode :: "fan \<Rightarrow> pystr \<Rightarrow> device \<Rightarrow> fan \<times> event list" where
  "async_set_preset_mode s mode dev =
     (if mode \<notin> set (preset_modes s) then (s, [])
      else
        (let key = str_of ''preset_'' @ mode in
         if key \<in> dom (fan_ir_codes s) then
           (case fan_send_ir_command s key dev of
              (s1, evs) \<Rightarrow>
                (s1\<lparr>preset_mode := Some mode, is_on := True, percentage := None\<rparr>, evs))
         else (s, [])))"

definition async_oscillate :: "fan \<Rightarrow> bool \<Rightarrow> device \<Rightarrow> fan \<times> event list" where
  "async_oscillate s osc dev =
     (if oscillation_supported s \<and> str_of ''swing'' \<in> dom (fan_ir_codes s) then
        (case fan_send_ir_command s (str_of ''swing'') dev of
           (s1, evs) \<Rightarrow> (s1\<lparr>oscillating := osc\<rparr>, evs))
      else (s, []))"

definition async_turn_on ::
  "fan \<Rightarrow> int option \<Rightarrow> pystr option \<Rightarrow> device \<Rightarrow> fan \<times> event list" where
  "async_turn_on s p mode dev =
     (case mode of
        Some m \<Rightarrow> async_set_preset_mode s m dev
      | None \<Rightarrow>
          (case p of
             Some q \<Rightarrow> async_set_percentage s q dev
           | None \<Rightarrow>
               (case fan_send_ir_command s (str_of ''power'') dev of
                  (s1, evs) \<Rightarrow> (s1\<lparr>is_on := True\<rparr>, evs))))"

definition fan_async_update :: "fan \<Rightarrow> device \<Rightarrow> fan \<times> event list" where
  "fan_async_update s dev =
     (let url = status_url (fan_device_ip s) in
      case probe_request dev url of
        Inr u \<Rightarrow> (s\<lparr>fan_available := True\<rparr>, [HttpGet url 5])
      | Inl e \<Rightarrow> (s\<lparr>fan_available := False\<rparr>, [HttpGet url 5, Caught e]))"

datatype fan_command =
    TurnOn "int option" "pystr option"
  | TurnOff
  | SetPercentage int
  | SetPresetMode pystr
  | Oscillate bool
  | FanUpdate

text \<open>The entity commands and the periodic refresh the host platform calls on a fan.\<close>

fun fan_handle :: "fan \<Rightarrow> fan_command \<Rightarrow> device \<Rightarrow> fan \<times> event list" where
  "fan_handle s (TurnOn p mode) dev = async_turn_on s p mode dev"
| "fan_handle s TurnOff dev = async_turn_off s dev"
| "fan_handle s (SetPercentage p) dev = async_set_percentage s p dev"
| "fan_handle s (SetPresetMode mode) dev = async_set_preset_mode s mode dev"
| "fan_handle s (Oscillate osc) dev = async_oscillate s osc dev"
| "fan_handle s FanUpdate dev = fan_async_update s dev"

section \<open>\<open>button.py\<close>: TasmotaIRButton\<close>

record button =
  btn_device_ip :: pystr
  button_name :: pystr
  button_data :: pydict
  btn_unique_id :: pystr
  btn_attr_name :: pystr
  btn_available :: bool

text \<open>\<open>replace(" ", "_").replace(".", "_").replace("-", "_")\<close>\<close>

definition safe_button_name :: "pystr \<Rightarrow> pystr" where
  "safe_button_name n = map (\<lambda>c. if c = 32 \<or> c = 46 \<or> c = 45 then 95 else c) n"

definition button_init :: "pystr \<Rightarrow> pystr \<Rightarrow> pydict \<Rightarrow> pystr \<Rightarrow> pystr \<Rightarrow> button" where
  "button_init ip bname bdata device_name entry_id =
     \<lparr> btn_device_ip = ip,
       button_name = bname,
       button_data = bdata,
       btn_unique_id =
         str_of ''tasmota_ir_button_'' @ entry_id @ [95] @ safe_button_name bname,
       btn_attr_name = device_name @ [32] @ bname,
       btn_available = True \<rparr>"

definition async_press :: "button \<Rightarrow> device \<Rightarrow> button \<times> event list" where
  "async_press s dev =
     (case ir_send_attempt dev (btn_device_ip s) (button_data s) of
        (Inr u, evs) \<Rightarrow> (s\<lparr>btn_available := True\<rparr>, evs)
      | (Inl e, evs) \<Rightarrow>
          (if request_exception e then (s\<lparr>btn_available := False\<rparr>, evs @ [Caught e])
           else (s\<lparr>btn_available := False\<rparr>, evs @ [Caught e])))"

definition button_async_update :: "button \<Rightarrow> device \<Rightarrow> button \<times> event list" where
  "button_async_update s dev =
     (let url = status_url (btn_device_ip s) in
      case probe_request dev url of
        Inr u \<Rightarrow> (s\<lparr>btn_available := True\<rparr>, [HttpGet url 5])
      | Inl e \<Rightarrow> (s\<lparr>btn_available := False\<rparr>, [HttpGet url 5, Caught e]))"

datatype button_command = Press | ButtonUpdate

fun button_handle :: "button \<Rightarrow> button_command \<Rightarrow> device \<Rightarrow> button \<times> event list" where
  "button_handle s Press dev = async_press s dev"
| "button_handle s ButtonUpdate dev = button_async_update s dev"

section \<open>\<open>remote.py\<close>: TasmotaIRRemote\<close>

record remote =
  rem_device_ip :: pystr
  buttons :: "pystr \<rightharpoonup> pydict"
  rem_unique_id :: pystr
  rem_available :: bool

definition remote_init :: "pystr \<Rightarrow> (pystr \<rightharpoonup> pydict) \<Rightarrow> pystr \<Rightarrow> remote" where
  "remote_init ip bs entry_id =
     \<lparr> rem_device_ip = ip,
       buttons = bs,
       rem_unique_id = str_of ''tasmota_ir_remote_'' @ entry_id,
       rem_available = True \<rparr>"

definition remote_send_ir_command :: "remote \<Rightarrow> pystr \<Rightarrow> device \<Rightarrow> remote \<times> event list" where
  "remote_send_ir_command s command_name dev =
     (case buttons s command_name of
        None \<Rightarrow> (s, [])
      | Some button \<Rightarrow>
          (case ir_send_attempt dev (rem_device_ip s) button of
             (Inr u, evs) \<Rightarrow> (s\<lparr>rem_available := True\<rparr>, evs)
           | (Inl e, evs) \<Rightarrow>
               (if request_exception e then (s\<lparr>rem_available := False\<rparr>, evs @ [Caught e])
                else (s\<lparr>rem_available := False\<rparr>, evs @ [Caught e]))))"

text \<open>The loop of \<open>async_send_command\<close> over the list of command names.\<close>

fun async_send_command :: "remote \<Rightarrow> pystr list \<Rightarrow> device \<Rightarrow> remote \<times> event list" where
  "async_send_command s [] dev = (s, [])"
| "async_send_command s (cmd # rest) dev =
     (case (if cmd \<in> dom (buttons s) then remote_send_ir_command s cmd dev else (s, [])) of
        (s1, evs1) \<Rightarrow>
          (case async_send_command s1 rest dev of (s2, evs2) \<Rightarrow> (s2, evs1 @ evs2)))"

definition remote_async_update :: "remote \<Rightarrow> device \<Rightarrow> remote \<times> event list" where
  "remote_async_update s dev =
     (let url = status_url (rem_device_ip s) in
      case probe_request dev url of
        Inr u \<Rightarrow> (s\<lparr>rem_available := True\<rparr>, [HttpGet url 5])
      | Inl e \<Rightarrow> (s\<lparr>rem_available := False\<rparr>, [HttpGet url 5, Caught e]))"

datatype remote_command = RemoteTurnOn | RemoteTurnOff | SendCommand "pystr list" | RemoteUpdate

fun remote_handle :: "remote \<Rightarrow> remote_command \<Rightarrow> device \<Rightarrow> remote \<times> event list" where
  "remote_handle s RemoteTurnOn dev = (s, [])"
| "remote_handle s RemoteTurnOff dev = (s, [])"
| "remote_handle s (SendCommand cmds) dev = async_send_command s cmds dev"
| "remote_handle s RemoteUpdate dev = remote_async_update s dev"

section \<open>\<open>climate.py\<close>: TasmotaIRClimate\<close>

text \<open>The operation modes of the host platform's \<open>HVACMode\<close>.\<close>

datatype HVACMode = OFF | HEAT | COOL | HEAT_COOL | AUTO | DRY | FAN_ONLY

text \<open>\<open>HA_TO_TASMOTA_MODE\<close>, the inverse of \<open>TASMOTA_TO_HA_MODE\<close>.\<close>

fun HA_TO_TASMOTA_MODE :: "HVACMode \<rightharpoonup> pystr" where
  "HA_TO_TASMOTA_MODE OFF = Some (str_of ''Off'')"
| "HA_TO_TASMOTA_MODE AUTO = Some (str_of ''Auto'')"
| "HA_TO_TASMOTA_MODE COOL = Some (str_of ''Cool'')"
| "HA_TO_TASMOTA_MODE HEAT = Some (str_of ''Heat'')"
| "HA_TO_TASMOTA_MODE DRY = Some (str_of ''Dry'')"
| "HA_TO_TASMOTA_MODE FAN_ONLY = Some (str_of ''Fan'')"
| "HA_TO_TASMOTA_MODE HEAT_COOL = None"

text \<open>The fan and swing mode names are Chinese words, given by their code points.\<close>

definition HA_TO_TASMOTA_FAN :: "pystr \<rightharpoonup> pystr" where
  "HA_TO_TASMOTA_FAN =
     map_of [([0x81EA, 0x52A8], str_of ''Auto''),
             ([0x6700, 0x5C0F], str_of ''Min''),
             ([0x4F4E, 0x901F], str_of ''Low''),
             ([0x4E2D, 0x901F], str_of ''Med''),
             ([0x9AD8, 0x901F], str_of ''High''),
             ([0x6700, 0x5927], str_of ''Max'')]"

definition swing_off :: pystr where "swing_off = [0x5173, 0x95ED]"
definition swing_vertical :: pystr where "swing_vertical = [0x5782, 0x76F4]"
definition swing_horizontal :: pystr where "swing_horizontal = [0x6C34, 0x5E73]"
definition swing_both :: pystr where "swing_both = [0x53CC, 0x5411]"

definition dict_get :: "('k \<rightharpoonup> 'v) \<Rightarrow> 'k \<Rightarrow> 'v \<Rightarrow> 'v" where
  "dict_get m k d = (case m k of None \<Rightarrow> d | Some v \<Rightarrow> v)"

record climate =
  clm_device_ip :: pystr
  vendor :: pystr
  hvac_mode :: HVACMode
  current_temperature :: "rat option"
  target_temperature :: rat
  fan_mode :: pystr
  swing_mode :: pystr
  clm_available :: bool

definition climate_init :: "pystr \<Rightarrow> pystr \<Rightarrow> climate" where
  "climate_init ip v =
     \<lparr> clm_device_ip = ip,
       vendor = v,
       hvac_mode = OFF,
       current_temperature = None,
       target_temperature = 25,
       fan_mode = [0x81EA, 0x52A8],
       swing_mode = swing_off,
       clm_available = True \<rparr>"

definition swing_value :: "bool \<Rightarrow> jvalue" where
  "swing_value b = JStr (if b then str_of ''Auto'' else str_of ''Off'')"

definition command_data :: "climate \<Rightarrow> json_object" where
  "command_data s =
     [(str_of ''Vendor'', JStr (vendor s)),
      (str_of ''Power'', JStr (if hvac_mode s = OFF then str_of ''Off'' else str_of ''On'')),
      (str_of ''Mode'', JStr (dict_get HA_TO_TASMOTA_MODE (hvac_mode s) (str_of ''Auto''))),
      (str_of ''Temp'', JInt (py_int (target_temperature s))),
      (str_of ''Celsius'', JStr (str_of ''On'')),
      (str_of ''FanSpeed'', JStr (dict_get HA_TO_TASMOTA_FAN (fan_mode s) (str_of ''Auto''))),
      (str_of ''SwingV'', swing_value (swing_mode s \<in> set [swing_vertical, swing_both])),
      (str_of ''SwingH'', swing_value (swing_mode s \<in> set [swing_horizontal, swing_both])),
      (str_of ''Quiet'', JStr (str_of ''Off'')),
      (str_of ''Turbo'', JStr (str_of ''Off'')),
      (str_of ''Econo'', JStr (str_of ''Off'')),
      (str_of ''Light'', JStr (str_of ''Off'')),
      (str_of ''Beep'', JStr (str_of ''Off''))]"

definition irhvac_url :: "pystr \<Rightarrow> pystr \<Rightarrow> pystr" where
  "irhvac_url ip enc = str_of ''http://'' @ ip @ str_of ''/cm?cmnd=IRHVAC%20'' @ enc"

text \<open>The \<open>try\<close> block of \<open>_send_hvac_command\<close>.\<close>

definition hvac_send_attempt :: "device \<Rightarrow> climate \<Rightarrow> (py_exn + unit) \<times> event list" where
  "hvac_send_attempt dev s =
     (case encoded_command (command_data s) of
        Inl e \<Rightarrow> (Inl e, [])
      | Inr enc \<Rightarrow>
          (let url = irhvac_url (clm_device_ip s) enc
           in (send_request dev url, [HttpGet url 10])))"

definition send_hvac_command :: "climate \<Rightarrow> device \<Rightarrow> climate \<times> event list" where
  "send_hvac_command s dev =
     (case hvac_send_attempt dev s of
        (Inr u, evs) \<Rightarrow> (s\<lparr>clm_available := True\<rparr>, evs)
      | (Inl e, evs) \<Rightarrow>
          (if request_exception e then (s\<lparr>clm_available := False\<rparr>, evs @ [Caught e])
           else (s\<lparr>clm_available := False\<rparr>, evs @ [Caught e])))"

text \<open>\<open>kwargs.get(ATTR_TEMPERATURE)\<close> is the optional argument.\<close>

definition async_set_temperature :: "climate \<Rightarrow> rat option \<Rightarrow> device \<Rightarrow> climate \<times> event list" where
  "async_set_temperature s temperature dev =
     (case temperature of
        None \<Rightarrow> (s, [])
      | Some t \<Rightarrow> send_hvac_command (s\<lparr>target_temperature := t\<rparr>) dev)"

definition async_set_hvac_mode :: "climate \<Rightarrow> HVACMode \<Rightarrow> device \<Rightarrow> climate \<times> event list" where
  "async_set_hvac_mode s m dev = send_hvac_command (s\<lparr>hvac_mode := m\<rparr>) dev"

definition async_set_fan_mode :: "climate \<Rightarrow> pystr \<Rightarrow> device \<Rightarrow> climate \<times> event list" where
  "async_set_fan_mode s m dev = send_hvac_command (s\<lparr>fan_mode := m\<rparr>) dev"

definition async_set_swing_mode :: "climate \<Rightarrow> pystr \<Rightarrow> device \<Rightarrow> climate \<times> event list" where
  "async_set_swing_mode s m dev = send_hvac_command (s\<lparr>swing_mode := m\<rparr>) dev"

definition climate_async_update :: "climate \<Rightarrow> device \<Rightarrow> climate \<times> event list" where
  "climate_async_update s dev =
     (let url = status_url (clm_device_ip s) in
      case probe_request dev url of
        Inr u \<Rightarrow> (s\<lparr>clm_available := True\<rparr>, [HttpGet url 5])
      | Inl e \<Rightarrow> (s\<lparr>clm_available := False\<rparr>, [HttpGet url 5, Caught e]))"

datatype climate_command =
    SetTemperature "rat option"
  | SetHvacMode HVACMode
  | SetFanMode pystr
  | SetSwingMode pystr
  | ClimateUpdate

fun climate_handle :: "climate \<Rightarrow> climate_command \<Rightarrow> device \<Rightarrow> climate \<times> event list" where
  "climate_handle s (SetTemperature t) dev = async_set_temperature s t dev"
| "climate_handle s (SetHvacMode m) dev = async_set_hvac_mode s m dev"
| "climate_handle s (SetFanMode m) dev = async_set_fan_mode s m dev"
| "climate_handle s (SetSwingMode m) dev = async_set_swing_mode s m dev"
| "climate_handle s ClimateUpdate dev = climate_async_update s dev"

section \<open>The statements of the specification\<close>

text \<open>
  The level the specification gives for a percentage: the rounded product clamped
  into \<open>1..n\<close>. The specification names no language, so its \<open>round\<close> is read as
  rounding to the nearest integer with a half rounded up.
\<close>

definition clamp :: "int \<Rightarrow> int \<Rightarrow> int \<Rightarrow> int" where
  "clamp x lo hi = (if x < lo then lo else if hi < x then hi else x)"

definition round_half_up :: "rat \<Rightarrow> int" where
  "round_half_up x = \<lfloor>x + 1 / 2\<rfloor>"

definition spec_speed_level :: "int \<Rightarrow> int \<Rightarrow> int" where
  "spec_speed_level p n = clamp (round_half_up (of_int p * of_int n / 100)) 1 n"

text \<open>
  The amended level: rounding to the nearest integer with a half rounded to the even
  neighbour, stated from the half-up rounding, not from the code.
\<close>

definition round_half_even :: "rat \<Rightarrow> int" where
  "round_half_even x =
     (let r = \<lfloor>x + 1 / 2\<rfloor>
      in if of_int r = x + 1 / 2 \<and> odd r then r - 1 else r)"

definition amended_speed_level :: "int \<Rightarrow> int \<Rightarrow> int" where
  "amended_speed_level p n = clamp (round_half_even (of_int p * of_int n / 100)) 1 n"

text \<open>The URLs an operation asked the device for, in order.\<close>

definition requested :: "event list \<Rightarrow> pystr list" where
  "requested evs =
     concat (map (\<lambda>e. case e of HttpGet url t \<Rightarrow> [url] | Caught x \<Rightarrow> []) evs)"

text \<open>
  A 2xx status, in the specification's words.
\<close>

definition success_status :: "int \<Rightarrow> bool" where
  "success_status st \<longleftrightarrow> 200 \<le> st \<and> st < 300"

text \<open>
  What the code takes for a successful command send: a response whose status
  \<open>raise_for_status\<close> lets through, and whose body \<open>response.json()\<close> parses.
\<close>

fun call_succeeds :: "http_result \<Rightarrow> bool" where
  "call_succeeds Refused = False"
| "call_succeeds TimedOut = False"
| "call_succeeds (Responded st ok) = (\<not> (400 \<le> st \<and> st < 600) \<and> ok)"

text \<open>What the code takes for a successful probe: the body is not looked at.\<close>

fun probe_succeeds :: "http_result \<Rightarrow> bool" where
  "probe_succeeds Refused = False"
| "probe_succeeds TimedOut = False"
| "probe_succeeds (Responded st ok) = (\<not> (400 \<le> st \<and> st < 600))"

text \<open>The exceptions an operation caught, in order.\<close>

definition caught :: "event list \<Rightarrow> py_exn list" where
  "caught evs = concat (map (\<lambda>e. case e of HttpGet url t \<Rightarrow> [] | Caught x \<Rightarrow> [x]) evs)"

section \<open>An example installation\<close>

text \<open>The fan of the example configuration shown by \<open>config_flow.py\<close>.\<close>

definition nec_code :: "string \<Rightarrow> pydict" where
  "nec_code d =
     map_of [(str_of ''protocol'', JStr (str_of ''NEC'')), (str_of ''bits'', JInt 32),
             (str_of ''data'', JStr (str_of d))]"

definition example_ir_codes :: "pystr \<rightharpoonup> pydict" where
  "example_ir_codes =
     map_of [(str_of ''power'', nec_code ''0x8166817E''),
             (str_of ''speed_1'', nec_code ''0x8166A15E''),
             (str_of ''speed_2'', nec_code ''0x816651AE''),
             (str_of ''speed_3'', nec_code ''0x8166D12E''),
             (str_of ''speed_4'', nec_code ''0x8166B14E''),
             (str_of ''speed_5'', nec_code ''0x8166C13E''),
             (str_of ''swing'', nec_code ''0x8166B14E''),
             (str_of ''preset_'' @ [33258, 28982, 39118], nec_code ''0x8166E11E''),
             (str_of ''preset_'' @ [30561, 30496, 27169, 24335], nec_code ''0x8166F10E'')]"

definition example_fan :: fan where
  "example_fan =
     fan_init (str_of ''192.168.1.50'') example_ir_codes
       \<lparr> cfg_speed_count = Some 5,
         cfg_preset_modes = Some [[33258, 28982, 39118], [30561, 30496, 27169, 24335]],
         cfg_oscillation_supported = Some True \<rparr>"

definition device_ok :: device where
  "device_ok = (\<lambda>url. Responded 200 True)"

definition device_down :: device where
  "device_down = (\<lambda>url. TimedOut)"

text \<open>A device that answers 300 with a JSON body, one that answers 200 with a body
  that is no JSON, and one that answers 404.\<close>

definition device_redirect :: device where
  "device_redirect = (\<lambda>url. Responded 300 True)"

definition device_garbled :: device where
  "device_garbled = (\<lambda>url. Responded 200 False)"

definition device_not_found :: device where
  "device_not_found = (\<lambda>url. Responded 404 True)"

text \<open>A fan with three speeds and a preset, for which only the power code is configured.\<close>

definition bare_fan :: fan where
  "bare_fan =
     fan_init (str_of ''192.168.1.50'') (map_of [(str_of ''power'', nec_code ''0x8166817E'')])
       \<lparr> cfg_speed_count = None, cfg_preset_modes = Some [str_of ''sleep''],
         cfg_oscillation_supported = None \<rparr>"

definition example_climate :: climate where
  "example_climate = climate_init (str_of ''192.168.1.50'') (str_of ''COOLIX'')"

text \<open>The first button of the example remote of \<open>config_flow.py\<close>.\<close>

definition example_button :: button where
  "example_button =
     button_init (str_of ''192.168.1.50'') [0x5F00, 0x5173, 49] (nec_code ''0x44BB01FE'')
       (str_of ''TV'') (str_of ''e1'')"

definition example_remote :: remote where
  "example_remote =
     remote_init (str_of ''192.168.1.50'')
       (map_of [([0x5F00, 0x5173, 49], nec_code ''0x44BB01FE''), (str_of ''1'', nec_code ''0x44BB817E'')])
       (str_of ''e1'')"

text \<open>The infrared command of the specification's example, and the dict built from it.\<close>

definition nec_button_data :: pydict where
  "nec_button_data =
     map_of [(str_of ''protocol'', JStr (str_of ''NEC'')), (str_of ''bits'', JInt 32),
             (str_of ''data'', JStr (str_of ''0x44BB01FE'')), (str_of ''repeat'', JInt 0)]"

definition nec_ir_data :: json_object where
  "nec_ir_data =
     [(str_of ''Protocol'', JStr (str_of ''NEC'')), (str_of ''Bits'', JInt 32),
      (str_of ''Data'', JStr (str_of ''0x44BB01FE'')), (str_of ''Repeat'', JInt 0)]"

section \<open>Properties\<close>

subsection \<open>The example installation\<close>

lemma example_speed_count: "speed_count example_fan = 5"
  by (simp add: example_fan_def fan_init_def)

lemma example_codes: "fan_ir_codes example_fan = example_ir_codes"
  by (simp add: example_fan_def fan_init_def)

lemma example_speed_2:
  "example_ir_codes (str_of ''speed_2'') = Some (nec_code ''0x816651AE'')"
  by (simp add: example_ir_codes_def str_of_def)

lemma speed_key_2: "speed_key 2 = str_of ''speed_2''"
  by code_simp

subsection \<open>Percentage zero\<close>

text \<open>
  C4. \<open>async_set_percentage\<close> with percentage 0 is \<open>async_turn_off\<close>: the only URL it
  can ask for is the one built from the code configured under \<open>power\<close> (none when
  that code is absent or incomplete), never one resolved from a speed level.
\<close>

theorem set_percentage_zero_turns_off:
  "async_set_percentage s 0 dev = async_turn_off s dev
   \<and> requested (snd (async_set_percentage s 0 dev))
      = (case fan_ir_codes s (str_of ''power'') of
           None \<Rightarrow> []
         | Some code \<Rightarrow>
             (case ir_command_url (fan_device_ip s) code of
                Inl e \<Rightarrow> [] | Inr url \<Rightarrow> [url]))"
  by (simp add: async_set_percentage_def async_turn_off_def fan_send_ir_command_def
      ir_send_attempt_def requested_def split: option.splits sum.splits prod.splits)

subsection \<open>JSON text is ASCII\<close>

lemma hex_lower_ascii: "d < 16 \<Longrightarrow> hex_lower d < 128"
  by (simp add: hex_lower_def)

lemma u_escape_ascii: "x \<in> set (u_escape n) \<Longrightarrow> x < 128"
  by (auto simp: u_escape_def intro!: hex_lower_ascii)

lemma esc_char_ascii: "x \<in> set (esc_char c) \<Longrightarrow> x < 128"
  by (auto simp: esc_char_def Let_def dest: u_escape_ascii split: if_splits)

lemma digits_range: "x \<in> set (digits n) \<Longrightarrow> 48 \<le> x \<and> x \<le> 57"
proof (induction n rule: digits.induct)
  case (1 n)
  show ?case
  proof (cases "n < 10")
    case True
    with "1.prems" show ?thesis by (simp add: digits.simps [of n])
  next
    case False
    with "1.prems" "1.IH" show ?thesis
      by (auto simp: digits.simps [of n])
  qed
qed

lemma str_int_ascii: "x \<in> set (str_int i) \<Longrightarrow> x < 128"
  by (auto simp: str_int_def dest: digits_range split: if_splits)

lemma encode_basestring_ascii_ascii: "x \<in> set (encode_basestring_ascii s) \<Longrightarrow> x < 128"
  by (auto simp: encode_basestring_ascii_def dest: esc_char_ascii)

lemma dumps_value_ascii: "x \<in> set (dumps_value v) \<Longrightarrow> x < 128"
  by (cases v) (auto simp: str_of_def dest: encode_basestring_ascii_ascii str_int_ascii split: if_splits)

lemma dumps_item_ascii: "x \<in> set (dumps_item kv) \<Longrightarrow> x < 128"
  by (auto simp: dumps_item_def dest: encode_basestring_ascii_ascii dumps_value_ascii)

lemma dumps_items_ascii: "x \<in> set (dumps_items obj) \<Longrightarrow> x < 128"
  by (induction obj arbitrary: x rule: dumps_items.induct) (auto dest: dumps_item_ascii)

lemma json_dumps_ascii: "x \<in> set (json_dumps obj) \<Longrightarrow> x < 128"
  by (auto simp: json_dumps_def dest: dumps_items_ascii)

lemma utf8_encode_ascii: "(\<And>x. x \<in> set s \<Longrightarrow> x < 128) \<Longrightarrow> utf8_encode s = Inr s"
  by (induction s) (auto simp: utf8_encode_char_def)

lemma encoded_command_total:
  "encoded_command obj = Inr (concat (map quote_byte (json_dumps obj)))"
  by (simp add: encoded_command_def quote_def utf8_encode_ascii json_dumps_ascii)

subsection \<open>The outcome of a request\<close>

lemma send_request_ok: "(send_request dev url = Inr ()) = call_succeeds (dev url)"
  by (cases "dev url")
     (auto simp: send_request_def requests_get_def raise_for_status_def response_json_def)

lemma probe_request_ok: "(probe_request dev url = Inr ()) = probe_succeeds (dev url)"
  by (cases "dev url")
     (auto simp: probe_request_def requests_get_def raise_for_status_def)

lemma ir_send_attempt_url:
  "ir_command_url ip code = Inr url \<Longrightarrow>
     ir_send_attempt dev ip code = (send_request dev url, [HttpGet url 10])"
  by (simp add: ir_send_attempt_def)

lemma send_request_down: "send_request device_down url = Inl Timeout"
  by (simp add: send_request_def requests_get_def device_down_def)

lemma requested_simps [simp]:
  "requested [] = []"
  "requested (HttpGet u t # evs) = u # requested evs"
  "requested (Caught e # evs) = requested evs"
  "requested (xs @ ys) = requested xs @ requested ys"
  by (simp_all add: requested_def)

lemma caught_append [simp]: "caught (xs @ ys) = caught xs @ caught ys"
  by (simp add: caught_def)

lemma caught_Caught [simp]: "caught [Caught e] = [e]"
  by (simp add: caught_def)

lemma caught_Cons_Caught [simp]: "caught (Caught e # evs) = e # caught evs"
  by (simp add: caught_def)

lemma caught_Cons_HttpGet [simp]: "caught (HttpGet u t # evs) = caught evs"
  by (simp add: caught_def)

lemma caught_Nil [simp]: "caught [] = []"
  by (simp add: caught_def)

lemma fan_send_available:
  assumes "fan_ir_codes s k = Some code" and "ir_command_url (fan_device_ip s) code = Inr url"
  shows "fan_available (fst (fan_send_ir_command s k dev)) = call_succeeds (dev url)"
    and "snd (fan_send_ir_command s k dev)
         = HttpGet url 10 # (case send_request dev url of Inl e \<Rightarrow> [Caught e] | Inr u \<Rightarrow> [])"
  using assms send_request_ok [of dev url]
  by (auto simp: fan_send_ir_command_def ir_send_attempt_url split: sum.splits)

lemma hvac_send_available:
  assumes "encoded_command (command_data s) = Inr enc"
  shows "clm_available (fst (send_hvac_command s dev))
           = call_succeeds (dev (irhvac_url (clm_device_ip s) enc))"
    and "snd (send_hvac_command s dev)
         = HttpGet (irhvac_url (clm_device_ip s) enc) 10
           # (case send_request dev (irhvac_url (clm_device_ip s) enc) of
                Inl e \<Rightarrow> [Caught e] | Inr u \<Rightarrow> [])"
  using assms send_request_ok [of dev "irhvac_url (clm_device_ip s) enc"]
  by (auto simp: send_hvac_command_def hvac_send_attempt_def Let_def split: sum.splits)

lemma hvac_send_available':
  "clm_available (fst (send_hvac_command c dev))
     = call_succeeds
         (dev (irhvac_url (clm_device_ip c) (concat (map quote_byte (json_dumps (command_data c))))))"
  "snd (send_hvac_command c dev)
     = HttpGet (irhvac_url (clm_device_ip c) (concat (map quote_byte (json_dumps (command_data c))))) 10
       # (case send_request dev
                 (irhvac_url (clm_device_ip c)
                    (concat (map quote_byte (json_dumps (command_data c))))) of
            Inl e \<Rightarrow> [Caught e] | Inr u \<Rightarrow> [])"
  by (rule hvac_send_available [OF encoded_command_total])+

lemma press_available:
  assumes "ir_command_url (btn_device_ip s) (button_data s) = Inr url"
  shows "btn_available (fst (async_press s dev)) = call_succeeds (dev url)"
  using assms send_request_ok [of dev url]
  by (auto simp: async_press_def ir_send_attempt_url split: sum.splits)

lemma press_requested:
  "ir_command_url (btn_device_ip s) (button_data s) = Inr url \<Longrightarrow>
     requested (snd (async_press s dev)) = [url]"
  by (auto simp: async_press_def ir_send_attempt_url split: sum.splits)

lemma remote_send_available:
  assumes "buttons s k = Some code" and "ir_command_url (rem_device_ip s) code = Inr url"
  shows "rem_available (fst (remote_send_ir_command s k dev)) = call_succeeds (dev url)"
  using assms send_request_ok [of dev url]
  by (auto simp: remote_send_ir_command_def ir_send_attempt_url split: sum.splits)

lemma fan_update_available:
  "fan_available (fst (fan_async_update s dev)) = probe_succeeds (dev (status_url (fan_device_ip s)))"
  using probe_request_ok [of dev "status_url (fan_device_ip s)"]
  by (auto simp: fan_async_update_def Let_def split: sum.splits)

lemma climate_update_available:
  "clm_available (fst (climate_async_update s dev)) = probe_succeeds (dev (status_url (clm_device_ip s)))"
  using probe_request_ok [of dev "status_url (clm_device_ip s)"]
  by (auto simp: climate_async_update_def Let_def split: sum.splits)

lemma button_update_available:
  "btn_available (fst (button_async_update s dev)) = probe_succeeds (dev (status_url (btn_device_ip s)))"
  using probe_request_ok [of dev "status_url (btn_device_ip s)"]
  by (auto simp: button_async_update_def Let_def split: sum.splits)

lemma remote_update_available:
  "rem_available (fst (remote_async_update s dev)) = probe_succeeds (dev (status_url (rem_device_ip s)))"
  using probe_request_ok [of dev "status_url (rem_device_ip s)"]
  by (auto simp: remote_async_update_def Let_def split: sum.splits)

lemma fan_send_flag:
  "fan_ir_codes s k = Some code \<Longrightarrow>
     fan_available (fst (fan_send_ir_command s k dev))
       = (fst (ir_send_attempt dev (fan_device_ip s) code) = Inr ())"
  by (auto simp: fan_send_ir_command_def split: prod.splits sum.splits)

lemma set_percentage_flag:
  "p \<noteq> 0 \<Longrightarrow> fan_ir_codes s (speed_key (speed_level p (speed_count s))) = Some code \<Longrightarrow>
     fan_available (fst (async_set_percentage s p dev))
       = (fst (ir_send_attempt dev (fan_device_ip s) code) = Inr ())"
  using fan_send_flag [of s "speed_key (speed_level p (speed_count s))" code dev]
  by (auto simp: async_set_percentage_def Let_def domIff split: prod.splits)

lemma press_flag:
  "btn_available (fst (async_press s dev))
     = (fst (ir_send_attempt dev (btn_device_ip s) (button_data s)) = Inr ())"
  by (auto simp: async_press_def split: prod.splits sum.splits)

lemma remote_send_flag:
  "buttons s k = Some code \<Longrightarrow>
     rem_available (fst (remote_send_ir_command s k dev))
       = (fst (ir_send_attempt dev (rem_device_ip s) code) = Inr ())"
  by (auto simp: remote_send_ir_command_def split: prod.splits sum.splits)

subsection \<open>More of the example installation\<close>

lemma power_url:
  "ir_command_url (str_of ''192.168.1.50'') (nec_code ''0x8166817E'')
   = Inr (str_of ''http://192.168.1.50/cm?cmnd=IRsend%20%7B%22Protocol%22%3A%22NEC%22%2C%22Bits%22%3A32%2C%22Data%22%3A%220x8166817E%22%2C%22Repeat%22%3A0%7D'')"
  by code_simp

lemma example_ip: "fan_device_ip example_fan = str_of ''192.168.1.50''"
  by (simp add: example_fan_def fan_init_def)

lemma example_power: "example_ir_codes (str_of ''power'') = Some (nec_code ''0x8166817E'')"
  by (simp add: example_ir_codes_def str_of_def)

lemma nec_code_lookup:
  "nec_code x (str_of ''protocol'') = Some (JStr (str_of ''NEC''))"
  "nec_code x (str_of ''bits'') = Some (JInt 32)"
  "nec_code x (str_of ''data'') = Some (JStr (str_of x))"
  "nec_code x (str_of ''repeat'') = None"
  by (simp_all add: nec_code_def str_of_def)

lemma nec_send_down: "fst (ir_send_attempt device_down ip (nec_code d)) = Inl Timeout"
  by (simp add: ir_send_attempt_def ir_command_url_def ir_data_def nec_code_lookup
      encoded_command_total send_request_down)

lemma speed_level_50_5: "speed_level 50 5 = 2"
  by code_simp

lemma speed_level_50_3: "speed_level 50 3 = 2" by code_simp

lemma bare_fan_fields:
  "speed_count bare_fan = 3"
  "fan_ir_codes bare_fan = map_of [(str_of ''power'', nec_code ''0x8166817E'')]"
  "preset_modes bare_fan = [str_of ''sleep'']"
  by (simp_all add: bare_fan_def fan_init_def)

lemma example_button_fields:
  "btn_available example_button"
  "button_data example_button = nec_code ''0x44BB01FE''"
  by (simp_all add: example_button_def button_init_def)

lemma example_remote_fields:
  "rem_available example_remote"
  "buttons example_remote [0x5F00, 0x5173, 49] = Some (nec_code ''0x44BB01FE'')"
  by (simp_all add: example_remote_def remote_init_def)

lemma example_available:
  "fan_available example_fan" "clm_available example_climate"
  by (simp_all add: example_fan_def fan_init_def example_climate_def climate_init_def)

subsection \<open>Percentage to speed level\<close>

lemma py_round_half_even: "py_round x = round_half_even x"
proof -
  define f where "f = \<lfloor>x\<rfloor>"
  define d where "d = x - of_int f"
  have d0: "0 \<le> d" and d1: "d < 1"
    unfolding d_def f_def by linarith+
  have x: "x = of_int f + d"
    by (simp add: d_def)
  consider (lt) "d < 1 / 2" | (gt) "1 / 2 < d" | (eq) "d = 1 / 2"
    by linarith
  then show ?thesis
  proof cases
    case lt
    have fl: "\<lfloor>x + 1 / 2\<rfloor> = f"
      using lt d0 by (simp add: x floor_unique)
    have ne: "of_int f \<noteq> x + 1 / 2"
      using lt d0 by (simp add: x)
    show ?thesis
      using lt [unfolded d_def] ne
      by (simp add: py_round_def round_half_even_def Let_def fl f_def [symmetric])
  next
    case gt
    have fl: "\<lfloor>x + 1 / 2\<rfloor> = f + 1"
      using gt d1 by (simp add: x floor_unique)
    have ne: "of_int (f + 1) \<noteq> x + 1 / 2"
      using gt by (simp add: x)
    show ?thesis
      using gt [unfolded d_def] ne
      by (simp add: py_round_def round_half_even_def Let_def fl f_def [symmetric])
  next
    case eq
    have fl: "\<lfloor>x + 1 / 2\<rfloor> = f + 1"
      using eq by (simp add: x floor_unique)
    have e: "of_int (f + 1) = x + 1 / 2"
      using eq by (simp add: x)
    show ?thesis
      using eq [unfolded d_def] e
      by (simp add: py_round_def round_half_even_def Let_def fl f_def [symmetric])
  qed
qed

lemma py_round_nonpos: "x \<le> 0 \<Longrightarrow> py_round x \<le> 0"
  unfolding py_round_def Let_def by auto

lemma speed_level_amended:
  assumes "0 < p"
  shows "speed_level p n = amended_speed_level p n"
proof (cases "1 \<le> n")
  case True
  then show ?thesis
    by (simp add: speed_level_def amended_speed_level_def clamp_def max_def min_def
        py_round_half_even)
next
  case False
  then have "n \<le> 0" by simp
  with assms have "p * n \<le> 0" by (simp add: mult_le_0_iff)
  then have "(of_int (p * n) :: rat) \<le> 0" by (simp only: of_int_le_0_iff)
  then have "(of_int (p * n) :: rat) / 100 \<le> 0"
    by (simp add: divide_le_0_iff del: of_int_mult)
  then have "py_round (of_int (p * n) / 100) \<le> 0" by (rule py_round_nonpos)
  then show ?thesis
    by (simp add: speed_level_def amended_speed_level_def clamp_def max_def min_def
        py_round_half_even [symmetric])
qed

lemma set_percentage_requested:
  assumes "p \<noteq> 0"
    and "fan_ir_codes s (speed_key (speed_level p (speed_count s))) = Some code"
    and "ir_command_url (fan_device_ip s) code = Inr url"
  shows "requested (snd (async_set_percentage s p dev)) = [url]"
  using assms
  by (auto simp: async_set_percentage_def Let_def domIff fan_send_ir_command_def
      ir_send_attempt_url split: prod.splits sum.splits)

lemma amended_speed_level_50_5: "amended_speed_level 50 5 = 2"
  by code_simp

lemma spec_speed_level_50_5: "spec_speed_level 50 5 = 3"
  by code_simp

lemma speed_2_url:
  "ir_command_url (str_of ''192.168.1.50'') (nec_code ''0x816651AE'')
   = Inr (str_of ''http://192.168.1.50/cm?cmnd=IRsend%20%7B%22Protocol%22%3A%22NEC%22%2C%22Bits%22%3A32%2C%22Data%22%3A%220x816651AE%22%2C%22Repeat%22%3A0%7D'')"
  by code_simp

text \<open>
  With a half rounded up, half of five speeds would be level 3; the fan resolves
  level 2 and sends the code of \<open>speed_2\<close>.
\<close>

theorem half_up_speed_level_counterexample:
  "speed_level 50 (speed_count example_fan) = 2
   \<and> spec_speed_level 50 (speed_count example_fan) = 3
   \<and> speed_level 50 (speed_count example_fan)
       \<noteq> spec_speed_level 50 (speed_count example_fan)"
  by (simp add: example_speed_count speed_level_50_5 spec_speed_level_50_5)

text \<open>
  C1, as the code has it. For a percentage \<open>p\<close> with \<open>0 < p \<le> 100\<close> and
  \<open>speed_count = n\<close>, the level that \<open>async_set_percentage\<close> resolves is
  \<open>clamp(round(p * n / 100), 1, n)\<close> where \<open>round\<close> rounds a half to the even
  neighbour; and when the code configured under \<open>speed_<level>\<close> for that level is
  complete, the one URL the operation asks for is the one built from that code.
\<close>

theorem set_percentage_speed_level:
  assumes "0 < p" and "p \<le> 100"
    and "fan_ir_codes s (speed_key (amended_speed_level p (speed_count s))) = Some code"
    and "ir_command_url (fan_device_ip s) code = Inr url"
  shows "speed_level p (speed_count s) = amended_speed_level p (speed_count s)
    \<and> requested (snd (async_set_percentage s p dev)) = [url]"
proof -
  have lv: "speed_level p (speed_count s) = amended_speed_level p (speed_count s)"
    using assms(1) by (rule speed_level_amended)
  have "p \<noteq> 0" using assms(1) by simp
  then have "requested (snd (async_set_percentage s p dev)) = [url]"
    using assms(3,4) by (intro set_percentage_requested) (simp_all add: lv)
  with lv show ?thesis by simp
qed

theorem set_percentage_speed_level_witness:
  "speed_level 50 (speed_count example_fan) = 2
   \<and> requested (snd (async_set_percentage example_fan 50 device_ok))
      = [str_of ''http://192.168.1.50/cm?cmnd=IRsend%20%7B%22Protocol%22%3A%22NEC%22%2C%22Bits%22%3A32%2C%22Data%22%3A%220x816651AE%22%2C%22Repeat%22%3A0%7D'']"
proof -
  have k: "fan_ir_codes example_fan
             (speed_key (amended_speed_level 50 (speed_count example_fan)))
           = Some (nec_code ''0x816651AE'')"
    by (simp add: example_speed_count example_codes amended_speed_level_50_5 speed_key_2
        example_speed_2)
  have u: "ir_command_url (fan_device_ip example_fan) (nec_code ''0x816651AE'')
           = Inr (str_of ''http://192.168.1.50/cm?cmnd=IRsend%20%7B%22Protocol%22%3A%22NEC%22%2C%22Bits%22%3A32%2C%22Data%22%3A%220x816651AE%22%2C%22Repeat%22%3A0%7D'')"
    by (simp only: example_ip speed_2_url)
  show ?thesis
    using set_percentage_speed_level [of 50 example_fan "nec_code ''0x816651AE''" _ device_ok,
        OF _ _ k u]
    by (simp add: example_speed_count amended_speed_level_50_5)
qed

subsection \<open>Command sends and the availability flag\<close>

theorem send_status_300_counterexample:
  "\<not> success_status 300
   \<and> fan_available (fst (fan_send_ir_command (example_fan\<lparr>fan_available := False\<rparr>)
        (str_of ''power'') device_redirect))"
  using fan_send_available(1) [of "example_fan\<lparr>fan_available := False\<rparr>" "str_of ''power''"
      "nec_code ''0x8166817E''" _ device_redirect]
  by (simp add: example_codes example_power example_ip power_url success_status_def device_redirect_def)

text \<open>
  C3, as the code has it. A command send whose call fails (the connection is refused,
  the request times out, the status is one of 400 to 599, or the body does not parse)
  clears the availability flag, and the exception is caught, not passed on: what the
  operation leaves is the request and the caught exception. A send whose response has
  any other status and a body that parses sets the flag. The fan's send is taken
  for a configured key whose code is complete; the climate's send always reaches the
  request.
\<close>

theorem command_send_sets_flag:
  assumes "fan_ir_codes f key = Some code"
    and "ir_command_url (fan_device_ip f) code = Inr url"
  shows "fan_available (fst (fan_send_ir_command f key dev)) = call_succeeds (dev url)
    \<and> snd (fan_send_ir_command f key dev)
        = HttpGet url 10 # (case send_request dev url of Inl e \<Rightarrow> [Caught e] | Inr u \<Rightarrow> [])
    \<and> clm_available (fst (send_hvac_command c dev))
        = call_succeeds
            (dev (irhvac_url (clm_device_ip c)
                    (concat (map quote_byte (json_dumps (command_data c))))))
    \<and> snd (send_hvac_command c dev)
        = HttpGet (irhvac_url (clm_device_ip c)
                     (concat (map quote_byte (json_dumps (command_data c))))) 10
          # (case send_request dev
                    (irhvac_url (clm_device_ip c)
                       (concat (map quote_byte (json_dumps (command_data c))))) of
               Inl e \<Rightarrow> [Caught e] | Inr u \<Rightarrow> [])"
  using fan_send_available [OF assms, of dev] hvac_send_available' [of c dev]
  by simp

theorem command_send_sets_flag_witness:
  "\<not> fan_available (fst (fan_send_ir_command example_fan (str_of ''power'') device_down))
   \<and> caught (snd (fan_send_ir_command example_fan (str_of ''power'') device_down)) = [Timeout]
   \<and> \<not> clm_available (fst (send_hvac_command example_climate device_down))
   \<and> caught (snd (send_hvac_command example_climate device_down)) = [Timeout]"
  using command_send_sets_flag [of example_fan "str_of ''power''" "nec_code ''0x8166817E''" _ device_down
      example_climate]
  by (simp add: example_codes example_power example_ip power_url send_request_down)
     (simp add: device_down_def)

subsection \<open>Success of a call\<close>

theorem probe_ignores_body_counterexample:
  "fan_available (fst (fan_async_update (example_fan\<lparr>fan_available := False\<rparr>)
        device_garbled))"
  by (simp add: fan_update_available device_garbled_def)

text \<open>
  C6, as the code has it. A command send is concluded a success exactly when the
  response has a status outside 400 to 599 and a body that parses; the reachability
  probe of each of the four entities sets the flag exactly when the response has a
  status outside 400 to 599, whatever its body; in every other case the flag is
  cleared.
\<close>

theorem call_success_conditions:
  "(send_request dev url = Inr ()) = call_succeeds (dev url)
   \<and> (probe_request dev url = Inr ()) = probe_succeeds (dev url)
   \<and> fan_available (fst (fan_async_update f dev))
       = probe_succeeds (dev (status_url (fan_device_ip f)))
   \<and> clm_available (fst (climate_async_update c dev))
       = probe_succeeds (dev (status_url (clm_device_ip c)))
   \<and> btn_available (fst (button_async_update b dev))
       = probe_succeeds (dev (status_url (btn_device_ip b)))
   \<and> rem_available (fst (remote_async_update r dev))
       = probe_succeeds (dev (status_url (rem_device_ip r)))"
  by (simp only: send_request_ok probe_request_ok fan_update_available
      climate_update_available button_update_available remote_update_available simp_thms)

theorem call_success_conditions_witness:
  "fan_available (fst (fan_async_update example_fan device_ok))
   \<and> \<not> fan_available (fst (fan_async_update example_fan device_down))
   \<and> \<not> fan_available (fst (fan_async_update example_fan device_not_found))
   \<and> send_request device_garbled [] \<noteq> Inr ()"
  using call_success_conditions [of device_ok _ example_fan] call_success_conditions [of device_down _ example_fan]
    call_success_conditions [of device_not_found _ example_fan]
    call_success_conditions [of device_garbled "[]"]
  by (simp add: device_ok_def device_down_def device_not_found_def device_garbled_def)

subsection \<open>The encoded command\<close>

lemma nec_ir_data_built: "ir_data nec_button_data = Inr nec_ir_data"
  by (simp add: nec_button_data_def nec_ir_data_def ir_data_def str_of_def)

lemma nec_json_text:
  \<open>json_dumps nec_ir_data
     = str_of ''{"Protocol":"NEC","Bits":32,"Data":"0x44BB01FE","Repeat":0}''\<close>
  by code_simp

lemma nec_quoted:
  \<open>quote (str_of ''{"Protocol":"NEC","Bits":32,"Data":"0x44BB01FE","Repeat":0}'')
     = Inr (str_of ''%7B%22Protocol%22%3A%22NEC%22%2C%22Bits%22%3A32%2C%22Data%22%3A%220x44BB01FE%22%2C%22Repeat%22%3A0%7D'')\<close>
  by code_simp

text \<open>
  C5. The command protocol NEC, bits 32, data 0x44BB01FE, repeat 0 gives the JSON text
  \<open>{"Protocol":"NEC","Bits":32,"Data":"0x44BB01FE","Repeat":0}\<close> with no white space,
  its percent-encoding is the text starting \<open>%7B%22Protocol%22\<close>, and pressing a
  button configured with it asks for the URL whose query is \<open>cmnd=IRsend%20\<close>
  followed by that encoding.
\<close>

theorem nec_command_string:
  \<open>ir_data nec_button_data = Inr nec_ir_data
   \<and> json_dumps nec_ir_data
       = str_of ''{"Protocol":"NEC","Bits":32,"Data":"0x44BB01FE","Repeat":0}''
   \<and> encoded_command nec_ir_data
       = quote (str_of ''{"Protocol":"NEC","Bits":32,"Data":"0x44BB01FE","Repeat":0}'')
   \<and> encoded_command nec_ir_data
       = Inr (str_of ''%7B%22Protocol%22%3A%22NEC%22%2C%22Bits%22%3A32%2C%22Data%22%3A%220x44BB01FE%22%2C%22Repeat%22%3A0%7D'')
   \<and> requested (snd (async_press (button_init ip bname nec_button_data dname entry) dev))
       = [str_of ''http://'' @ ip @ str_of ''/cm?'' @ str_of ''cmnd=IRsend%20''
          @ str_of ''%7B%22Protocol%22%3A%22NEC%22%2C%22Bits%22%3A32%2C%22Data%22%3A%220x44BB01FE%22%2C%22Repeat%22%3A0%7D'']\<close>
proof -
  have enc: \<open>encoded_command nec_ir_data
       = Inr (str_of ''%7B%22Protocol%22%3A%22NEC%22%2C%22Bits%22%3A32%2C%22Data%22%3A%220x44BB01FE%22%2C%22Repeat%22%3A0%7D'')\<close>
    by (simp only: encoded_command_def nec_json_text nec_quoted)
  have url: \<open>ir_command_url ip nec_button_data
       = Inr (str_of ''http://'' @ ip @ str_of ''/cm?'' @ str_of ''cmnd=IRsend%20''
          @ str_of ''%7B%22Protocol%22%3A%22NEC%22%2C%22Bits%22%3A32%2C%22Data%22%3A%220x44BB01FE%22%2C%22Repeat%22%3A0%7D'')\<close>
    by (simp add: ir_command_url_def nec_ir_data_built enc irsend_url_def irsend_command_def)
  have req: \<open>requested (snd (async_press (button_init ip bname nec_button_data dname entry) dev))
       = [str_of ''http://'' @ ip @ str_of ''/cm?'' @ str_of ''cmnd=IRsend%20''
          @ str_of ''%7B%22Protocol%22%3A%22NEC%22%2C%22Bits%22%3A32%2C%22Data%22%3A%220x44BB01FE%22%2C%22Repeat%22%3A0%7D'']\<close>
    by (rule press_requested) (simp add: button_init_def url)
  show ?thesis
    using nec_ir_data_built nec_json_text enc req
    by (simp only: encoded_command_def nec_quoted simp_thms)
qed

subsection \<open>The repeat count\<close>

text \<open>
  C7. For a configured code with \<open>protocol\<close>, \<open>bits\<close> and \<open>data\<close>: when the
  configuration has no \<open>repeat\<close> the command object carries \<open>Repeat = 0\<close>, when it
  has one the object carries that value; and the JSON text ends with the \<open>Repeat\<close>
  member written from it.
\<close>

theorem repeat_defaults_to_zero:
  assumes "code (str_of ''protocol'') = Some p"
    and "code (str_of ''bits'') = Some b"
    and "code (str_of ''data'') = Some d"
  shows \<open>(code (str_of ''repeat'') = None \<longrightarrow>
            ir_data code
              = Inr [(str_of ''Protocol'', p), (str_of ''Bits'', b), (str_of ''Data'', d),
                     (str_of ''Repeat'', JInt 0)])
       \<and> (code (str_of ''repeat'') = Some r \<longrightarrow>
            ir_data code
              = Inr [(str_of ''Protocol'', p), (str_of ''Bits'', b), (str_of ''Data'', d),
                     (str_of ''Repeat'', r)])
       \<and> json_dumps [(str_of ''Protocol'', p), (str_of ''Bits'', b), (str_of ''Data'', d),
                      (str_of ''Repeat'', v)]
           = 123 # dumps_items [(str_of ''Protocol'', p), (str_of ''Bits'', b),
                                (str_of ''Data'', d)]
             @ str_of '',"Repeat":'' @ dumps_value v @ str_of ''}''\<close>
proof -
  have \<open>encode_basestring_ascii (str_of ''Repeat'') = str_of ''"Repeat"''\<close>
    by code_simp
  then show ?thesis
    using assms by (simp add: ir_data_def json_dumps_def dumps_item_def str_of_def)
qed

theorem repeat_defaults_to_zero_witness:
  \<open>ir_data (nec_code ''0x44BB01FE'')
     = Inr [(str_of ''Protocol'', JStr (str_of ''NEC'')), (str_of ''Bits'', JInt 32),
            (str_of ''Data'', JStr (str_of ''0x44BB01FE'')), (str_of ''Repeat'', JInt 0)]
   \<and> ir_data ((nec_code ''0x44BB01FE'')(str_of ''repeat'' \<mapsto> JInt 3))
     = Inr [(str_of ''Protocol'', JStr (str_of ''NEC'')), (str_of ''Bits'', JInt 32),
            (str_of ''Data'', JStr (str_of ''0x44BB01FE'')), (str_of ''Repeat'', JInt 3)]\<close>
proof -
  have neq: "str_of ''protocol'' \<noteq> str_of ''repeat''" "str_of ''bits'' \<noteq> str_of ''repeat''"
    "str_of ''data'' \<noteq> str_of ''repeat''"
    by (simp_all add: str_of_def)
  show ?thesis
    using repeat_defaults_to_zero [of "nec_code ''0x44BB01FE''" "JStr (str_of ''NEC'')" "JInt 32"
        "JStr (str_of ''0x44BB01FE'')" "JInt 3" JNull]
      repeat_defaults_to_zero [of "(nec_code ''0x44BB01FE'')(str_of ''repeat'' \<mapsto> JInt 3)" "JStr (str_of ''NEC'')"
        "JInt 32" "JStr (str_of ''0x44BB01FE'')" "JInt 3" JNull]
    by (simp add: nec_code_lookup neq)
qed

subsection \<open>Availability\<close>

lemma fan_send_cleared:
  "fan_send_ir_command s k dev = (s1, evs) \<Longrightarrow> fan_available s \<Longrightarrow> \<not> fan_available s1
     \<Longrightarrow> caught evs \<noteq> []"
  by (auto simp: fan_send_ir_command_def split: option.splits prod.splits sum.splits if_splits)

lemma fan_handle_cleared:
  assumes "fan_available s" and "\<not> fan_available (fst (fan_handle s c dev))"
  shows "caught (snd (fan_handle s c dev)) \<noteq> []"
proof (cases c)
  case (TurnOn p mode)
  with assms show ?thesis
    by (auto simp: async_turn_on_def async_set_preset_mode_def async_set_percentage_def
        async_turn_off_def Let_def
        split: option.splits prod.splits if_splits dest: fan_send_cleared)
next
  case TurnOff
  with assms show ?thesis
    by (auto simp: async_turn_off_def split: prod.splits dest: fan_send_cleared)
next
  case (SetPercentage p)
  with assms show ?thesis
    by (auto simp: async_set_percentage_def async_turn_off_def Let_def
        split: prod.splits if_splits dest: fan_send_cleared)
next
  case (SetPresetMode m)
  with assms show ?thesis
    by (auto simp: async_set_preset_mode_def Let_def
        split: prod.splits if_splits dest: fan_send_cleared)
next
  case (Oscillate b)
  with assms show ?thesis
    by (auto simp: async_oscillate_def split: prod.splits if_splits dest: fan_send_cleared)
next
  case FanUpdate
  with assms show ?thesis
    by (auto simp: fan_async_update_def Let_def split: sum.splits)
qed

lemma hvac_send_cleared:
  "\<not> clm_available (fst (send_hvac_command s dev)) \<Longrightarrow> caught (snd (send_hvac_command s dev)) \<noteq> []"
  by (auto simp: send_hvac_command_def split: prod.splits sum.splits if_splits)

lemma climate_handle_cleared:
  assumes "clm_available s" and "\<not> clm_available (fst (climate_handle s c dev))"
  shows "caught (snd (climate_handle s c dev)) \<noteq> []"
proof (cases c)
  case (SetTemperature t)
  with assms show ?thesis
    by (cases t) (auto simp: async_set_temperature_def dest: hvac_send_cleared)
next
  case (SetHvacMode m)
  with assms show ?thesis by (auto simp: async_set_hvac_mode_def dest: hvac_send_cleared)
next
  case (SetFanMode m)
  with assms show ?thesis by (auto simp: async_set_fan_mode_def dest: hvac_send_cleared)
next
  case (SetSwingMode m)
  with assms show ?thesis by (auto simp: async_set_swing_mode_def dest: hvac_send_cleared)
next
  case ClimateUpdate
  with assms show ?thesis
    by (auto simp: climate_async_update_def Let_def split: sum.splits)
qed

lemma button_handle_cleared:
  assumes "btn_available s" and "\<not> btn_available (fst (button_handle s c dev))"
  shows "caught (snd (button_handle s c dev)) \<noteq> []"
  using assms
  by (cases c)
     (auto simp: async_press_def button_async_update_def Let_def
        split: prod.splits sum.splits if_splits)

lemma remote_send_cleared:
  "remote_send_ir_command s k dev = (s1, evs) \<Longrightarrow> rem_available s \<Longrightarrow> \<not> rem_available s1
     \<Longrightarrow> caught evs \<noteq> []"
  by (auto simp: remote_send_ir_command_def split: option.splits prod.splits sum.splits if_splits)

lemma send_command_cleared:
  "async_send_command s cmds dev = (s2, evs) \<Longrightarrow> rem_available s \<Longrightarrow> \<not> rem_available s2
     \<Longrightarrow> caught evs \<noteq> []"
proof (induction cmds arbitrary: s s2 evs)
  case Nil
  then show ?case by simp
next
  case (Cons cmd rest)
  obtain s1 evs1 where 1:
    "(if cmd \<in> dom (buttons s) then remote_send_ir_command s cmd dev else (s, [])) = (s1, evs1)"
    by (cases "if cmd \<in> dom (buttons s) then remote_send_ir_command s cmd dev else (s, [])")
  obtain s2' evs2 where 2: "async_send_command s1 rest dev = (s2', evs2)"
    by (cases "async_send_command s1 rest dev")
  from Cons.prems(1) 1 2 have eq: "s2 = s2'" "evs = evs1 @ evs2" by simp_all
  show ?case
  proof (cases "rem_available s1")
    case True
    with Cons.IH [OF 2] Cons.prems(3) eq show ?thesis by simp
  next
    case False
    with 1 Cons.prems(2) have "caught evs1 \<noteq> []"
      by (auto split: if_splits dest: remote_send_cleared)
    with eq show ?thesis by simp
  qed
qed

lemma remote_handle_cleared:
  assumes "rem_available s" and "\<not> rem_available (fst (remote_handle s c dev))"
  shows "caught (snd (remote_handle s c dev)) \<noteq> []"
proof (cases c)
  case (SendCommand cmds)
  with assms send_command_cleared [of s cmds dev] show ?thesis
    by (cases "async_send_command s cmds dev") auto
next
  case RemoteUpdate
  with assms show ?thesis
    by (auto simp: remote_async_update_def Let_def split: sum.splits)
qed (use assms in auto)

text \<open>
  C8. Each of the four entities is available when constructed, and an operation that
  finds the flag set and leaves it cleared has caught an exception: the flag only
  becomes false after a failed operation.
\<close>

theorem available_until_failure:
  "fan_available (fan_init ip codes cfg)
   \<and> clm_available (climate_init ip v)
   \<and> btn_available (button_init ip bname bdata dname entry)
   \<and> rem_available (remote_init ip bs entry)
   \<and> (fan_available f \<and> \<not> fan_available (fst (fan_handle f fc dev))
        \<longrightarrow> caught (snd (fan_handle f fc dev)) \<noteq> [])
   \<and> (clm_available c \<and> \<not> clm_available (fst (climate_handle c cc dev))
        \<longrightarrow> caught (snd (climate_handle c cc dev)) \<noteq> [])
   \<and> (btn_available b \<and> \<not> btn_available (fst (button_handle b bc dev))
        \<longrightarrow> caught (snd (button_handle b bc dev)) \<noteq> [])
   \<and> (rem_available r \<and> \<not> rem_available (fst (remote_handle r rc dev))
        \<longrightarrow> caught (snd (remote_handle r rc dev)) \<noteq> [])"
  using fan_handle_cleared [of f fc dev] climate_handle_cleared [of c cc dev]
    button_handle_cleared [of b bc dev] remote_handle_cleared [of r rc dev]
  by (simp add: fan_init_def Let_def climate_init_def button_init_def remote_init_def)

theorem available_until_failure_witness:
  "fan_available example_fan
   \<and> \<not> fan_available (fst (fan_handle example_fan (SetPercentage 50) device_down))
   \<and> caught (snd (fan_handle example_fan (SetPercentage 50) device_down)) \<noteq> []
   \<and> clm_available example_climate
   \<and> \<not> clm_available (fst (climate_handle example_climate (SetTemperature (Some 22)) device_down))
   \<and> caught (snd (climate_handle example_climate (SetTemperature (Some 22)) device_down)) \<noteq> []
   \<and> btn_available example_button
   \<and> \<not> btn_available (fst (button_handle example_button Press device_down))
   \<and> caught (snd (button_handle example_button Press device_down)) \<noteq> []
   \<and> rem_available example_remote
   \<and> \<not> rem_available
         (fst (remote_handle example_remote (SendCommand [[0x5F00, 0x5173, 49]]) device_down))
   \<and> caught (snd (remote_handle example_remote (SendCommand [[0x5F00, 0x5173, 49]]) device_down))
       \<noteq> []"
proof -
  have f: "\<not> fan_available (fst (fan_handle example_fan (SetPercentage 50) device_down))"
    using set_percentage_flag [of 50 example_fan "nec_code ''0x816651AE''" device_down]
    by (simp add: example_speed_count speed_level_50_5 speed_key_2 example_codes
        example_speed_2 nec_send_down)
  have c: "\<not> clm_available
              (fst (climate_handle example_climate (SetTemperature (Some 22)) device_down))"
    by (simp add: async_set_temperature_def hvac_send_available' device_down_def)
  have b: "\<not> btn_available (fst (button_handle example_button Press device_down))"
    by (simp add: press_flag example_button_fields nec_send_down)
  have r: "\<not> rem_available
         (fst (remote_handle example_remote (SendCommand [[0x5F00, 0x5173, 49]]) device_down))"
    using remote_send_flag [of example_remote "[0x5F00, 0x5173, 49]" "nec_code ''0x44BB01FE''"
        device_down]
    by (simp add: example_remote_fields domIff nec_send_down split: prod.splits)
  show ?thesis
    using available_until_failure [of _ _ _ _ _ _ _ _ _ example_fan "SetPercentage 50" device_down
        example_climate "SetTemperature (Some 22)" example_button Press
        example_remote "SendCommand [[0x5F00, 0x5173, 49]]"]
      f c b r
    by (simp add: example_available example_button_fields example_remote_fields)
qed

subsection \<open>Keys that are not configured\<close>

text \<open>
  C9. \<open>async_set_percentage\<close> with a percentage other than 0 whose \<open>speed_<level>\<close>
  key is not configured, and \<open>async_set_preset_mode\<close> whose \<open>preset_<mode>\<close> key is
  not configured, ask the device for nothing and return the entity as it was.
\<close>

theorem absent_key_changes_nothing:
  "(p \<noteq> 0 \<and> speed_key (speed_level p (speed_count s)) \<notin> dom (fan_ir_codes s)
      \<longrightarrow> async_set_percentage s p dev = (s, []))
   \<and> (str_of ''preset_'' @ mode \<notin> dom (fan_ir_codes s)
      \<longrightarrow> async_set_preset_mode s mode dev = (s, []))"
  by (simp add: async_set_percentage_def async_set_preset_mode_def Let_def)

theorem absent_key_changes_nothing_witness:
  "async_set_percentage bare_fan 50 device_ok = (bare_fan, [])
   \<and> str_of ''sleep'' \<in> set (preset_modes bare_fan)
   \<and> async_set_preset_mode bare_fan (str_of ''sleep'') device_ok = (bare_fan, [])"
  using absent_key_changes_nothing [of 50 bare_fan device_ok "str_of ''sleep''"]
  by (simp add: bare_fan_fields speed_level_50_3 speed_key_2 domIff str_of_def)

subsection \<open>State after a send\<close>

text \<open>
  C10. \<open>async_set_percentage\<close> with \<open>0 < p \<le> 100\<close> and a configured speed key stores
  the percentage and the on-flag, and \<open>async_set_temperature\<close> with a temperature
  stores the target temperature, whatever the device does; the availability flag is
  set exactly when the \<open>try\<close> block of the send ran to its end.
\<close>

theorem state_updated_whatever_the_outcome:
  assumes "0 < p" and "p \<le> 100"
    and "fan_ir_codes f (speed_key (speed_level p (speed_count f))) = Some code"
  shows "percentage (fst (async_set_percentage f p dev)) = Some p
    \<and> is_on (fst (async_set_percentage f p dev))
    \<and> fan_available (fst (async_set_percentage f p dev))
        = (fst (ir_send_attempt dev (fan_device_ip f) code) = Inr ())
    \<and> target_temperature (fst (async_set_temperature c (Some t) dev)) = t
    \<and> clm_available (fst (async_set_temperature c (Some t) dev))
        = (fst (hvac_send_attempt dev (c\<lparr>target_temperature := t\<rparr>)) = Inr ())"
proof -
  have "p \<noteq> 0" using assms(1) by simp
  then have fan: "percentage (fst (async_set_percentage f p dev)) = Some p
    \<and> is_on (fst (async_set_percentage f p dev))
    \<and> fan_available (fst (async_set_percentage f p dev))
        = (fst (ir_send_attempt dev (fan_device_ip f) code) = Inr ())"
    using assms(3)
    by (auto simp: async_set_percentage_def Let_def fan_send_ir_command_def domIff
        split: prod.splits sum.splits)
  have clm: "target_temperature (fst (async_set_temperature c (Some t) dev)) = t
    \<and> clm_available (fst (async_set_temperature c (Some t) dev))
        = (fst (hvac_send_attempt dev (c\<lparr>target_temperature := t\<rparr>)) = Inr ())"
    by (auto simp: async_set_temperature_def send_hvac_command_def
        split: prod.splits sum.splits)
  from fan clm show ?thesis by simp
qed

theorem state_updated_whatever_the_outcome_witness:
  "percentage (fst (async_set_percentage example_fan 50 device_down)) = Some 50
   \<and> is_on (fst (async_set_percentage example_fan 50 device_down))
   \<and> \<not> fan_available (fst (async_set_percentage example_fan 50 device_down))
   \<and> target_temperature (fst (async_set_temperature example_climate (Some (45 / 2)) device_down))
       = 45 / 2
   \<and> \<not> clm_available (fst (async_set_temperature example_climate (Some (45 / 2)) device_down))"
proof -
  have k: "fan_ir_codes example_fan (speed_key (speed_level 50 (speed_count example_fan)))
             = Some (nec_code ''0x816651AE'')"
    by (simp add: example_speed_count speed_level_50_5 speed_key_2 example_codes example_speed_2)
  have h: "fst (hvac_send_attempt device_down (example_climate\<lparr>target_temperature := 45 / 2\<rparr>))
             = Inl Timeout"
    by (simp add: hvac_send_attempt_def encoded_command_total Let_def send_request_down)
  show ?thesis
    using state_updated_whatever_the_outcome [of 50 example_fan "nec_code ''0x816651AE''" device_down example_climate "45 / 2",
        OF _ _ k]
    by (simp add: nec_send_down h)
qed

end
